theory Spec2Isabelle
  imports Complex_Main "HOL-Library.Sublist"
begin

section \<open>Python strings\<close>

text \<open>
  A Python 3 \<^verbatim>\<open>str\<close> is a sequence of Unicode code points, so a string is a list of
  code points here (the replies of the language model are Malayalam as often as English,
  and \<^verbatim>\<open>str.strip\<close> removes Unicode whitespace, not only ASCII blanks).
  \<open>lit\<close> turns an ASCII literal of the source into such a string.
\<close>

type_synonym pystr = "nat list"

definition lit :: "string \<Rightarrow> pystr" where
  "lit s = map of_char s"

text \<open>
  \<^verbatim>\<open>str.isspace\<close> for one code point: the whitespace table of CPython
  (U+0009..U+000D, U+001C..U+001F, U+0020, U+0085, U+00A0, U+1680, U+2000..U+200A,
  U+2028, U+2029, U+202F, U+205F, U+3000).
\<close>

definition py_isspace :: "nat \<Rightarrow> bool" where
  "py_isspace c =
     ((9 \<le> c \<and> c \<le> 13) \<or> (28 \<le> c \<and> c \<le> 32) \<or> c = 133 \<or> c = 160 \<or> c = 5760 \<or>
      (8192 \<le> c \<and> c \<le> 8202) \<or> c = 8232 \<or> c = 8233 \<or> c = 8239 \<or> c = 8287 \<or>
      c = 12288)"

text \<open>\<^verbatim>\<open>s.strip()\<close>: whitespace removed at both ends.\<close>

definition py_strip :: "pystr \<Rightarrow> pystr" where
  "py_strip s = rev (dropWhile py_isspace (rev (dropWhile py_isspace s)))"

text \<open>
  \<^verbatim>\<open>s.split(sep)\<close> for a separator of one character (the source splits at
  \<^verbatim>\<open>'\n'\<close>): the result is never empty, the empty string gives \<^verbatim>\<open>['']\<close>.
\<close>

fun py_split :: "'a \<Rightarrow> 'a list \<Rightarrow> 'a list list" where
  "py_split sep [] = [[]]"
| "py_split sep (c # cs) =
     (if c = sep then [] # py_split sep cs
      else (c # hd (py_split sep cs)) # tl (py_split sep cs))"

text \<open>
  \<^verbatim>\<open>s.replace(old, new)\<close>: the occurrences of \<open>old\<close> are found from the left and do
  not overlap. With an empty \<open>old\<close>, Python puts \<open>new\<close> before every character and at
  the end.
\<close>

function py_replace :: "'a list \<Rightarrow> 'a list \<Rightarrow> 'a list \<Rightarrow> 'a list" where
  "py_replace old new s =
     (if old = [] then new @ concat (map (\<lambda>c. c # new) s)
      else if s = [] then []
      else if prefix old s then new @ py_replace old new (drop (length old) s)
      else hd s # py_replace old new (tl s))"
  by pat_completeness auto
termination
  by (relation "measure (\<lambda>(old, new, s). length s)") (auto simp: prefix_def)

declare py_replace.simps [simp del]

text \<open>\<^verbatim>\<open>sep.join(parts)\<close>, used to say what \<open>py_replace\<close> removes.\<close>

fun py_join :: "'a list \<Rightarrow> 'a list list \<Rightarrow> 'a list" where
  "py_join sep [] = []"
| "py_join sep [x] = x"
| "py_join sep (x # y # ys) = x @ sep @ py_join sep (y # ys)"

section \<open>The marker tokens and the post-processor of \<^verbatim>\<open>chat\<close> (app.py)\<close>

definition LANG_ML :: pystr where
  "LANG_ML = lit ''[lang:ml]''"

definition LANG_EN :: pystr where
  "LANG_EN = lit ''[lang:en]''"

text \<open>
  \<^verbatim>\<open>lang_match = bot_response_text.strip().split('\n')[-1]\<close>. The list is never empty,
  so the index \<^verbatim>\<open>[-1]\<close> never raises and is \<open>last\<close>.
\<close>

definition lang_match :: "pystr \<Rightarrow> pystr" where
  "lang_match bot_response_text = last (py_split 10 (py_strip bot_response_text))"

text \<open>
  Lines 102 to 111 of app.py: the pair \<open>(response_text, lang)\<close> that the handler puts
  into its JSON answer.
\<close>

definition parse_response :: "pystr \<Rightarrow> pystr \<times> pystr" where
  "parse_response bot_response_text =
     (if sublist LANG_ML (lang_match bot_response_text)
      then (py_strip (py_replace LANG_ML [] bot_response_text), lit ''ml'')
      else if sublist LANG_EN (lang_match bot_response_text)
      then (py_strip (py_replace LANG_EN [] bot_response_text), lit ''en'')
      else (bot_response_text, lit ''en''))"

section \<open>Values, exceptions and effects\<close>

text \<open>
  An exception is kept as the text that \<^verbatim>\<open>str(e)\<close> gives, which is all the source
  uses of it. Exceptions are those of class \<^verbatim>\<open>Exception\<close>, the class every handler
  of the source names.
\<close>

datatype py_exception = PyException (message: pystr)

text \<open>
  What \<^verbatim>\<open>request.get_json()\<close> can hold under a key. A float is represented by the
  number it stands for; the source only tests it against zero.
\<close>

datatype json =
    JNull
  | JBool bool
  | JInt int
  | JFloat real
  | JStr pystr
  | JArr "json list"
  | JObj "(pystr \<times> json) list"

text \<open>Python's truth value of such a value (\<^verbatim>\<open>not user_query\<close> is its negation).\<close>

fun truthy :: "json \<Rightarrow> bool" where
  "truthy JNull = False"
| "truthy (JBool b) = b"
| "truthy (JInt n) = (n \<noteq> 0)"
| "truthy (JFloat x) = (x \<noteq> 0)"
| "truthy (JStr s) = (s \<noteq> [])"
| "truthy (JArr xs) = (xs \<noteq> [])"
| "truthy (JObj kvs) = (kvs \<noteq> [])"

text \<open>
  The effects of a run, in order: a prompt passed to \<^verbatim>\<open>model.generate_content\<close>, a
  line printed, a text played aloud in a language (terminal variant).
\<close>

datatype event = Sent pystr | Printed pystr | Played pystr pystr

text \<open>The prompts that a run has passed to the model, in order.\<close>

fun prompts_sent :: "event list \<Rightarrow> pystr list" where
  "prompts_sent [] = []"
| "prompts_sent (Sent prompt # evs) = prompt # prompts_sent evs"
| "prompts_sent (Printed l # evs) = prompts_sent evs"
| "prompts_sent (Played text lang # evs) = prompts_sent evs"

text \<open>
  The remote model: the text of the response to a prompt, or the exception that the call
  (or reading \<^verbatim>\<open>response.text\<close>) raises. The sampling temperature is fixed in the
  source and left out.
\<close>

type_synonym llm = "pystr \<Rightarrow> py_exception + pystr"

section \<open>The prompt (both variants)\<close>

text \<open>
  \<^verbatim>\<open>full_prompt = f"CONTEXT FROM DOCUMENTS:\n---\n{context}\n---\n\nFARMER'S QUERY:\n{user_query}"\<close>,
  the same line in app.py and chatbot.py.
\<close>

definition full_prompt :: "pystr \<Rightarrow> pystr \<Rightarrow> pystr" where
  "full_prompt user_query context =
     lit ''CONTEXT FROM DOCUMENTS:\<newline>---\<newline>'' @ context @
     lit ''\<newline>---\<newline>\<newline>FARMER'S QUERY:\<newline>'' @ user_query"

section \<open>Web variant (app.py)\<close>

definition app_system_prompt :: pystr where
  "app_system_prompt = lit (
     ''You are 'Krishi Sakhi', a friendly and knowledgeable AI farming assistant for farmers in Kerala, India.\<newline>'' @
     ''- Your purpose is to answer farming-related questions.\<newline>'' @
     ''- Analyze the user's query to determine if it is in English or Malayalam. Your final response MUST be in the same language.\<newline>'' @
     ''- After your main answer, add a language tag on a new line, like this: [lang:ml] for Malayalam or [lang:en] for English. This tag is for the application and should not be spoken.\<newline>'' @
     ''- Prioritize using the information from the 'CONTEXT FROM DOCUMENTS' section to answer.\<newline>'' @
     ''- If the documents don't have the answer, use your general knowledge.\<newline>'' @
     ''- Keep your answers clear, concise, and easy for a farmer to understand.'')"

definition app_apology :: pystr where
  "app_apology =
     lit ''Sorry, I am having trouble connecting to my brain right now. Please try again later. [lang:en]''"

text \<open>
  \<^verbatim>\<open>get_gemini_response\<close> of app.py. It binds \<open>system_prompt\<close> and never uses it:
  the argument of \<^verbatim>\<open>generate_content\<close> is \<open>full_prompt\<close>. The result is the returned
  text with the effects of the call.
\<close>

definition app_get_gemini_response :: "llm \<Rightarrow> pystr \<Rightarrow> pystr \<Rightarrow> pystr \<times> event list" where
  "app_get_gemini_response generate_content user_query context =
     (let system_prompt = app_system_prompt;
          prompt = full_prompt user_query context
      in case generate_content prompt of
           Inr text \<Rightarrow> (text, [Sent prompt])
         | Inl e \<Rightarrow>
             (app_apology,
              [Sent prompt, Printed (lit ''An error occurred with the Gemini API: '' @ message e)]))"

text \<open>
  A PDF as \<^verbatim>\<open>pdfplumber\<close> shows it: opening a path raises or gives the pages, and
  \<^verbatim>\<open>page.extract_text()\<close> raises, returns \<^verbatim>\<open>None\<close> or returns a string.
\<close>

type_synonym page = "py_exception + pystr option"

type_synonym pdf_library = "pystr \<Rightarrow> py_exception + page list"

text \<open>The page loop of \<^verbatim>\<open>extract_text_from_pdf\<close>, with its test \<^verbatim>\<open>if text:\<close>.\<close>

fun app_pages :: "page list \<Rightarrow> pystr \<Rightarrow> py_exception + pystr" where
  "app_pages [] full_text = Inr full_text"
| "app_pages (Inl e # ps) full_text = Inl e"
| "app_pages (Inr None # ps) full_text = app_pages ps full_text"
| "app_pages (Inr (Some text) # ps) full_text =
     (if text \<noteq> [] then app_pages ps (full_text @ text @ [10]) else app_pages ps full_text)"

definition extract_text_from_pdf :: "pdf_library \<Rightarrow> pystr \<Rightarrow> pystr option \<times> event list" where
  "extract_text_from_pdf pdfplumber_open pdf_path =
     (case pdfplumber_open pdf_path of
        Inl e \<Rightarrow> (None, [Printed (lit ''Error reading '' @ pdf_path @ lit '': '' @ message e)])
      | Inr pages \<Rightarrow>
          (case app_pages pages [] of
             Inl e \<Rightarrow> (None, [Printed (lit ''Error reading '' @ pdf_path @ lit '': '' @ message e)])
           | Inr full_text \<Rightarrow> (Some full_text, [])))"

text \<open>The process state of the server: the global \<open>pdf_context\<close> and what it has done.\<close>

record server =
  pdf_context :: pystr
  trace :: "event list"

definition PDF_FILENAME :: pystr where
  "PDF_FILENAME = lit ''pop2016.pdf''"

definition load_initial_context :: "(pystr \<Rightarrow> bool) \<Rightarrow> pdf_library \<Rightarrow> server \<Rightarrow> server" where
  "load_initial_context path_exists pdfplumber_open st =
     (if \<not> path_exists PDF_FILENAME
      then st\<lparr>pdf_context :=
                lit ''Error: Could not find the knowledge document '' @ [39] @ PDF_FILENAME @ [39] @ lit ''.'',
              trace := trace st @
                [Printed (lit ''FATAL ERROR: The file '' @ [39] @ PDF_FILENAME @ [39] @
                          lit '' was not found in the same directory.'')]\<rparr>
      else
        (case extract_text_from_pdf pdfplumber_open PDF_FILENAME of (context, evs) \<Rightarrow>
           (if context \<noteq> None \<and> context \<noteq> Some []
            then st\<lparr>pdf_context := the context,
                    trace := trace st @
                      [Printed (lit ''Loading knowledge base from '' @ [39] @ PDF_FILENAME @ [39] @ lit ''...'')] @
                      evs @ [Printed (lit ''Knowledge base loaded successfully.'')]\<rparr>
            else st\<lparr>pdf_context := lit ''Error: The provided PDF could not be read or is empty.'',
                    trace := trace st @
                      [Printed (lit ''Loading knowledge base from '' @ [39] @ PDF_FILENAME @ [39] @ lit ''...'')] @
                      evs @ [Printed (lit ''Error processing '' @ PDF_FILENAME @
                                      lit ''. The bot may not have context.'')]\<rparr>)))"

text \<open>
  The answer of the endpoint: the status code and the object given to \<^verbatim>\<open>jsonify\<close>.
\<close>

record http_response =
  status :: nat
  payload :: "pystr \<rightharpoonup> json"

text \<open>
  \<^verbatim>\<open>chat\<close>. \<open>data\<close> is the JSON object of the request body; \<^verbatim>\<open>data.get('query')\<close>
  is \<^verbatim>\<open>None\<close> for an absent key. A query that is not a string enters the f-string of the
  prompt through \<^verbatim>\<open>str\<close>, which is the parameter \<open>py_str\<close>.
\<close>

definition query_text :: "(json \<Rightarrow> pystr) \<Rightarrow> json \<Rightarrow> pystr" where
  "query_text py_str v = (case v of JStr s \<Rightarrow> s | _ \<Rightarrow> py_str v)"

definition no_query :: http_response where
  "no_query = \<lparr>status = 400, payload = [lit ''error'' \<mapsto> JStr (lit ''No query provided'')]\<rparr>"

definition chat :: "llm \<Rightarrow> (json \<Rightarrow> pystr) \<Rightarrow> server \<Rightarrow> (pystr \<rightharpoonup> json) \<Rightarrow> http_response \<times> server" where
  "chat generate_content py_str st data =
     (case data (lit ''query'') of
        None \<Rightarrow> (no_query, st)
      | Some user_query \<Rightarrow>
          if \<not> truthy user_query then (no_query, st)
          else
            (case app_get_gemini_response generate_content (query_text py_str user_query) (pdf_context st)
             of (bot_response_text, evs) \<Rightarrow>
               (case parse_response bot_response_text of (response_text, lang) \<Rightarrow>
                  (\<lparr>status = 200,
                    payload = [lit ''response'' \<mapsto> JStr response_text, lit ''lang'' \<mapsto> JStr lang]\<rparr>,
                   st\<lparr>trace := trace st @ evs\<rparr>))))"

section \<open>Terminal variant (chatbot.py)\<close>

definition chatbot_system_prompt :: pystr where
  "chatbot_system_prompt = lit (
     ''You are 'Agro AI', a friendly and knowledgeable AI farming assistant for farmers in Kerala, India. Your purpose is to answer farming-related questions.\<newline>'' @
     ''\<newline>'' @
     ''    Follow these rules carefully:\<newline>'' @
     ''    1.  Analyze the user's query to determine if it is in English or Malayalam. Your final response MUST be in the same language.\<newline>'' @
     ''    2.  Prioritize using the information from the 'CONTEXT FROM DOCUMENTS' section to answer the question, as this is specific to the user.\<newline>'' @
     ''    3.  If the documents do not contain the answer, you should use your general knowledge to provide the most helpful and accurate response possible.\<newline>'' @
     ''    4.  When using general knowledge, you can optionally state that the specific information wasn't in the uploaded documents.\<newline>'' @
     ''    5.  Keep your answers clear, concise, and easy for a farmer to understand.\<newline>'' @
     ''    '')"

definition chatbot_apology :: pystr where
  "chatbot_apology =
     lit ''Sorry, I am having trouble connecting to my brain right now. Please try again later.''"

text \<open>
  \<^verbatim>\<open>get_gemini_response\<close> of chatbot.py:
  \<^verbatim>\<open>combined_prompt = f"{system_prompt}\n\n{full_prompt}"\<close> is what it sends.
\<close>

definition chatbot_get_gemini_response :: "llm \<Rightarrow> pystr \<Rightarrow> pystr \<Rightarrow> pystr \<times> event list" where
  "chatbot_get_gemini_response generate_content user_query context =
     (let system_prompt = chatbot_system_prompt;
          combined_prompt = system_prompt @ lit ''\<newline>\<newline>'' @ full_prompt user_query context
      in case generate_content combined_prompt of
           Inr text \<Rightarrow> (text, [Printed (lit ''Thinking...''), Sent combined_prompt])
         | Inl e \<Rightarrow>
             (chatbot_apology,
              [Printed (lit ''Thinking...''), Sent combined_prompt,
               Printed (lit ''An error occurred with the Gemini API: '' @ message e)]))"

text \<open>\<^verbatim>\<open>os.path.basename\<close> (POSIX): what follows the last slash.\<close>

definition basename :: "pystr \<Rightarrow> pystr" where
  "basename path = rev (takeWhile (\<lambda>c. c \<noteq> 47) (rev path))"

text \<open>
  The page loop of \<^verbatim>\<open>extract_text_from_pdfs\<close>:
  \<^verbatim>\<open>full_text += page.extract_text() + "\n"\<close>, with no test of the page's text. A page
  for which \<^verbatim>\<open>extract_text\<close> returns \<^verbatim>\<open>None\<close> makes the addition raise
  \<^verbatim>\<open>TypeError\<close>. The result is the text accumulated so far (the variable keeps it when
  an exception leaves the loop) and the exception, if one was raised.
\<close>

definition none_plus_str :: py_exception where
  "none_plus_str =
     PyException (lit ''unsupported operand type(s) for +: 'NoneType' and 'str'' @ [39])"

fun chatbot_pages :: "page list \<Rightarrow> pystr \<Rightarrow> pystr \<times> py_exception option" where
  "chatbot_pages [] full_text = (full_text, None)"
| "chatbot_pages (Inl e # ps) full_text = (full_text, Some e)"
| "chatbot_pages (Inr None # ps) full_text = (full_text, Some none_plus_str)"
| "chatbot_pages (Inr (Some text) # ps) full_text = chatbot_pages ps (full_text @ text @ [10])"

text \<open>The body of \<^verbatim>\<open>for path in pdf_paths\<close>: one file, one printed line.\<close>

definition chatbot_file :: "pdf_library \<Rightarrow> pystr \<Rightarrow> pystr \<Rightarrow> pystr \<times> event" where
  "chatbot_file pdfplumber_open path full_text =
     (case pdfplumber_open path of
        Inl e \<Rightarrow>
          (full_text, Printed (lit ''  - Could not read '' @ basename path @ lit '': '' @ message e))
      | Inr pages \<Rightarrow>
          (case chatbot_pages pages full_text of
             (full_text', None) \<Rightarrow>
               (full_text', Printed (lit ''  - Successfully processed '' @ basename path))
           | (full_text', Some e) \<Rightarrow>
               (full_text',
                Printed (lit ''  - Could not read '' @ basename path @ lit '': '' @ message e))))"

fun chatbot_files :: "pdf_library \<Rightarrow> pystr list \<Rightarrow> pystr \<Rightarrow> pystr \<times> event list" where
  "chatbot_files pdfplumber_open [] full_text = (full_text, [])"
| "chatbot_files pdfplumber_open (path # paths) full_text =
     (case chatbot_file pdfplumber_open path full_text of (full_text', ev) \<Rightarrow>
        (case chatbot_files pdfplumber_open paths full_text' of (result, evs) \<Rightarrow>
           (result, ev # evs)))"

definition extract_text_from_pdfs :: "pdf_library \<Rightarrow> pystr list \<Rightarrow> pystr \<times> event list" where
  "extract_text_from_pdfs pdfplumber_open pdf_paths =
     (case chatbot_files pdfplumber_open pdf_paths [] of (full_text, evs) \<Rightarrow>
        (full_text,
         [Printed (lit ''Extracting text from PDF documents...'')] @ evs @
         [Printed (lit ''Extraction complete.\<newline>'')]))"

text \<open>
  \<^verbatim>\<open>listen_for_input\<close>, from the outcomes of the two calls of
  \<^verbatim>\<open>recognize_google\<close>. An exception other than \<^verbatim>\<open>UnknownValueError\<close> in the
  English attempt is raised inside a handler, so no clause of the outer \<^verbatim>\<open>try\<close>
  catches it and it leaves the function.
\<close>

datatype recognition =
    Heard pystr
  | UnknownValueError
  | RequestError py_exception
  | OtherError py_exception

definition listen_for_input ::
  "recognition \<Rightarrow> recognition \<Rightarrow> (py_exception + (pystr \<times> pystr) option) \<times> event list" where
  "listen_for_input as_ml as_en =
     (let start = [Printed (lit ''\<newline>Listening... (Speak now)''),
                   Printed (lit ''Recognizing (as Malayalam)...'')]
      in case as_ml of
           Heard query \<Rightarrow>
             (Inr (Some (query, lit ''ml'')), start @ [Printed (lit ''Heard (ml): '' @ query)])
         | UnknownValueError \<Rightarrow>
             (case as_en of
                Heard query \<Rightarrow>
                  (Inr (Some (query, lit ''en'')),
                   start @ [Printed (lit ''Recognizing (as English)...''),
                            Printed (lit ''Heard (en): '' @ query)])
              | UnknownValueError \<Rightarrow>
                  (Inr None,
                   start @ [Printed (lit ''Recognizing (as English)...''),
                            Printed (lit ''Sorry, I could not understand the audio.'')])
              | RequestError e \<Rightarrow> (Inl e, start @ [Printed (lit ''Recognizing (as English)...'')])
              | OtherError e \<Rightarrow> (Inl e, start @ [Printed (lit ''Recognizing (as English)...'')]))
         | RequestError e \<Rightarrow>
             (Inr None,
              start @ [Printed (lit ''Could not request results from Google Speech Recognition service; '' @
                                message e)])
         | OtherError e \<Rightarrow>
             (Inr None,
              start @ [Printed (lit ''An unknown error occurred during speech recognition: '' @
                                message e)]))"

text \<open>
  \<^verbatim>\<open>speak_response\<close>: the synthesis (\<^verbatim>\<open>gTTS\<close>, \<^verbatim>\<open>save\<close>) fails before the line
  is printed, the playback after it; either way the handler prints the line.
\<close>

datatype tts_result = TtsOk | TtsFails py_exception | PlaysoundFails py_exception

definition speak_response :: "tts_result \<Rightarrow> pystr \<Rightarrow> pystr \<Rightarrow> event list" where
  "speak_response tts text lang =
     (let said = Printed (lit ''Krishi Sakhi ('' @ lang @ lit ''): '' @ text)
      in case tts of
           TtsOk \<Rightarrow> [said, Played text lang]
         | TtsFails e \<Rightarrow>
             [Printed (lit ''\<newline>Error in text-to-speech or playback: '' @ message e), said]
         | PlaysoundFails e \<Rightarrow>
             [said, Printed (lit ''\<newline>Error in text-to-speech or playback: '' @ message e), said])"

text \<open>
  The conversation loop of \<^verbatim>\<open>main\<close>. The state is the local \<open>knowledge_context\<close> and
  what the program has done. One turn of the outside world: the line that
  \<^verbatim>\<open>input\<close> returns, what the recogniser hears if asked, what \<^verbatim>\<open>detect\<close> answers
  (\<open>Inl\<close> is \<^verbatim>\<open>LangDetectException\<close>), and how the speech output goes.
  \<^verbatim>\<open>str.lower\<close> is the parameter \<open>py_lower\<close>.
\<close>

record terminal =
  knowledge_context :: pystr
  out :: "event list"

record turn =
  line :: pystr
  as_ml :: recognition
  as_en :: recognition
  detected :: "py_exception + pystr"
  tts :: tts_result

datatype control = Continue | Break | Crash py_exception

definition respond :: "llm \<Rightarrow> terminal \<Rightarrow> turn \<Rightarrow> pystr \<Rightarrow> pystr \<Rightarrow> control \<times> terminal" where
  "respond generate_content st t query lang =
     (case chatbot_get_gemini_response generate_content query (knowledge_context st) of
        (bot_response, evs) \<Rightarrow>
          (Continue, st\<lparr>out := out st @ evs @ speak_response (tts t) bot_response lang\<rparr>))"

definition loop_body :: "llm \<Rightarrow> (pystr \<Rightarrow> pystr) \<Rightarrow> terminal \<Rightarrow> turn \<Rightarrow> control \<times> terminal" where
  "loop_body generate_content py_lower st t =
     (let user_input = py_lower (py_strip (line t)) in
      if user_input = lit ''exit'' then (Break, st)
      else if user_input = lit ''speak'' then
        (case listen_for_input (as_ml t) (as_en t) of
           (Inl e, evs) \<Rightarrow> (Crash e, st\<lparr>out := out st @ evs\<rparr>)
         | (Inr None, evs) \<Rightarrow> (Continue, st\<lparr>out := out st @ evs\<rparr>)
         | (Inr (Some (query, lang)), evs) \<Rightarrow>
             if query = [] then (Continue, st\<lparr>out := out st @ evs\<rparr>)
             else respond generate_content (st\<lparr>out := out st @ evs\<rparr>) t query lang)
      else
        respond generate_content st t user_input
          (case detected t of
             Inr detected_lang \<Rightarrow> if detected_lang = lit ''ml'' then lit ''ml'' else lit ''en''
           | Inl e \<Rightarrow> lit ''en''))"

text \<open>
  \<^verbatim>\<open>while True\<close> over the turns the outside world provides; when the input ends,
  \<^verbatim>\<open>input\<close> raises \<^verbatim>\<open>EOFError\<close>.
\<close>

fun conversation ::
  "llm \<Rightarrow> (pystr \<Rightarrow> pystr) \<Rightarrow> terminal \<Rightarrow> turn list \<Rightarrow> control \<times> terminal" where
  "conversation generate_content py_lower st [] =
     (Crash (PyException (lit ''EOF when reading a line'')), st)"
| "conversation generate_content py_lower st (t # ts) =
     (case loop_body generate_content py_lower st t of
        (Continue, st') \<Rightarrow> conversation generate_content py_lower st' ts
      | (Break, st') \<Rightarrow> (Break, st')
      | (Crash e, st') \<Rightarrow> (Crash e, st'))"

text \<open>
  \<^verbatim>\<open>main\<close> from its step 2 on, for the list \<open>pdf_files\<close> that step 1 has collected.
\<close>

definition main ::
  "pdf_library \<Rightarrow> llm \<Rightarrow> (pystr \<Rightarrow> pystr) \<Rightarrow> pystr list \<Rightarrow> turn list \<Rightarrow> control \<times> terminal" where
  "main pdfplumber_open generate_content py_lower pdf_files turns =
     (case extract_text_from_pdfs pdfplumber_open pdf_files of (context, evs) \<Rightarrow>
        if py_strip context = []
        then (Break,
              \<lparr>knowledge_context = context,
               out = evs @ [Printed (lit ''Could not extract any text from the provided PDFs. Exiting.'')]\<rparr>)
        else
          (case conversation generate_content py_lower
                  \<lparr>knowledge_context = context,
                   out = evs @
                     [Printed (lit ''You can now start chatting with Krishi Sakhi.''),
                      Printed (lit ''Type your message or say 'speak' to use your voice.''),
                      Printed (lit ''Type 'exit' to end the conversation.'')]\<rparr>
                  turns of
             (Crash e, st) \<Rightarrow> (Crash e, st)
           | (c, st) \<Rightarrow>
               (c, st\<lparr>out := out st @
                  [Printed (lit ''\<newline>Thank you for using Agro AI. Have a great day! '' @ [127793])]\<rparr>)))"

section \<open>The final line, in the words of the specification\<close>

text \<open>
  The specification speaks of the final non-empty line of the reply. A line is non-empty
  here when it holds a character that is not whitespace, lines being separated by
  \<^verbatim>\<open>'\n'\<close>; \<open>final_line\<close> is the last such line of the reply as it is, before any
  trimming. It is compared below with \<open>lang_match\<close>, which is what the source computes.
\<close>

definition nonblank :: "pystr \<Rightarrow> bool" where
  "nonblank l = list_ex (\<lambda>c. \<not> py_isspace c) l"

definition final_line :: "pystr \<Rightarrow> pystr option" where
  "final_line reply =
     (let ls = filter nonblank (py_split 10 reply) in if ls = [] then None else Some (last ls))"

definition final_line_has :: "pystr \<Rightarrow> pystr \<Rightarrow> bool" where
  "final_line_has token reply =
     (case final_line reply of None \<Rightarrow> False | Some l \<Rightarrow> sublist token l)"

section \<open>Facts about the string operations\<close>

lemma py_split_not_Nil: "py_split sep s \<noteq> []"
  by (induction s) auto

lemma py_split_append:
  "py_split sep (x @ y) =
     butlast (py_split sep x) @ (last (py_split sep x) @ hd (py_split sep y)) # tl (py_split sep y)"
proof (induction x)
  case Nil
  then show ?case using py_split_not_Nil [of sep y] by simp
next
  case (Cons c x)
  then show ?case
    using py_split_not_Nil [of sep x] py_split_not_Nil [of sep y]
    by (cases "py_split sep x" rule: rev_cases; cases "butlast (py_split sep x)") (auto simp: butlast_append)
qed

lemma concat_py_split: "concat (py_split sep s) = filter (\<lambda>c. c \<noteq> sep) s"
proof (induction s)
  case Nil then show ?case by simp
next
  case (Cons c s)
  then show ?case using py_split_not_Nil [of sep s]
    by (cases "py_split sep s") auto
qed

lemma py_split_subset: "l \<in> set (py_split sep s) \<Longrightarrow> set l \<subseteq> set s"
proof -
  assume "l \<in> set (py_split sep s)"
  then have "set l \<subseteq> set (concat (py_split sep s))" by auto
  then show ?thesis by (auto simp: concat_py_split)
qed

lemma last_py_split: "last (py_split sep s) = rev (takeWhile (\<lambda>c. c \<noteq> sep) (rev s))"
proof (induction s rule: rev_induct)
  case Nil then show ?case by simp
next
  case (snoc c s)
  have "py_split sep [c] = (if c = sep then [[], []] else [[c]])" by simp
  then show ?case using py_split_append [of sep s "[c]"] snoc by auto
qed

lemma sublist_drop_left:
  "\<forall>c\<in>set p. P c \<Longrightarrow> t \<noteq> [] \<Longrightarrow> \<forall>c\<in>set t. \<not> P c \<Longrightarrow> sublist t (p @ x) = sublist t x"
proof (induction p)
  case Nil then show ?case by simp
next
  case (Cons c p)
  then have "\<not> prefix t (c # p @ x)" by (cases t) auto
  with Cons show ?case by (simp add: sublist_Cons_right)
qed

lemma sublist_drop_right:
  assumes "\<forall>c\<in>set q. P c" "t \<noteq> []" "\<forall>c\<in>set t. \<not> P c"
  shows "sublist t (x @ q) = sublist t x"
proof -
  have "sublist (rev t) (rev q @ rev x) = sublist (rev t) (rev x)"
    using assms by (intro sublist_drop_left [where P = P]) auto
  then show ?thesis using sublist_rev [of t "x @ q"] by (simp del: sublist_rev add: sublist_rev)
qed


lemma py_strip_decomp:
  "\<exists>a b. s = a @ py_strip s @ b \<and> (\<forall>c\<in>set a. py_isspace c) \<and> (\<forall>c\<in>set b. py_isspace c)"
proof -
  define d where "d = dropWhile py_isspace s"
  have "s = takeWhile py_isspace s @ d" by (simp add: d_def)
  moreover have "rev d = takeWhile py_isspace (rev d) @ dropWhile py_isspace (rev d)" by simp
  then have "d = py_strip s @ rev (takeWhile py_isspace (rev d))"
    unfolding py_strip_def d_def [symmetric] by (metis rev_append rev_rev_ident)
  moreover have "\<forall>c\<in>set (takeWhile py_isspace s). py_isspace c"
    by (auto dest: set_takeWhileD)
  moreover have "\<forall>c\<in>set (rev (takeWhile py_isspace (rev d))). py_isspace c"
    by (auto dest: set_takeWhileD)
  ultimately show ?thesis by metis
qed

lemma py_strip_last: "py_strip s \<noteq> [] \<Longrightarrow> \<not> py_isspace (last (py_strip s))"
  unfolding py_strip_def by (simp add: last_rev hd_dropWhile)

lemma nonblank_iff: "nonblank l = (\<exists>c\<in>set l. \<not> py_isspace c)"
  by (simp add: nonblank_def list_ex_iff)

lemma isspace_newline: "py_isspace 10"
  by (simp add: py_isspace_def)

lemma lang_match_final_line:
  assumes t: "t \<noteq> []" "\<forall>c\<in>set t. \<not> py_isspace c"
  shows "sublist t (lang_match s) = final_line_has t s"
proof -
  define m where "m = py_strip s"
  obtain a b where s: "s = a @ m @ b" and a: "\<forall>c\<in>set a. py_isspace c"
    and b: "\<forall>c\<in>set b. py_isspace c"
    using py_strip_decomp [of s] unfolding m_def by blast
  show ?thesis
  proof (cases "m = []")
    case True
    then have "\<forall>c\<in>set s. py_isspace c" using s a b by auto
    then have "filter nonblank (py_split 10 s) = []"
      using py_split_subset [of _ 10 s] by (auto simp: filter_empty_conv nonblank_iff)
    moreover have "lang_match s = []" using True by (simp add: lang_match_def m_def)
    ultimately show ?thesis using t by (simp add: final_line_has_def final_line_def)
  next
    case False
    define A where "A = py_split 10 a"
    define M where "M = py_split 10 m"
    define B where "B = py_split 10 b"
    define K where "K = last M @ hd B"
    have A: "A \<noteq> []" and M: "M \<noteq> []" and B: "B \<noteq> []"
      by (simp_all add: A_def M_def B_def py_split_not_Nil)
    have lastm: "\<not> py_isspace (last m)" using False py_strip_last [of s] by (simp add: m_def)
    then have "last m \<noteq> 10" using isspace_newline by auto
    then have "last m \<in> set (last M)"
      using False unfolding M_def last_py_split by (cases m rule: rev_cases) auto
    then have nbK: "\<And>P. nonblank (P @ K)" using lastm by (auto simp: nonblank_iff K_def)
    have blankB: "\<forall>l\<in>set (tl B). \<not> nonblank l"
    proof
      fix l assume "l \<in> set (tl B)"
      then have "l \<in> set B" using B by (auto dest: list.set_sel(2))
      then have "set l \<subseteq> set b" unfolding B_def by (rule py_split_subset)
      then show "\<not> nonblank l" using b by (auto simp: nonblank_iff)
    qed
    have hdB: "\<forall>c\<in>set (hd B). py_isspace c"
      using py_split_subset [of "hd B" 10 b] B b by (auto simp: B_def)
    have lastA: "\<forall>c\<in>set (last A). py_isspace c"
      using py_split_subset [of "last A" 10 a] A a by (auto simp: A_def)
    have Z: "py_split 10 (m @ b) = butlast M @ K # tl B"
      by (simp add: py_split_append M_def B_def K_def)
    have S: "py_split 10 s =
               butlast A @ (last A @ hd (py_split 10 (m @ b))) # tl (py_split 10 (m @ b))"
      unfolding s A_def by (rule py_split_append)
    obtain pre P where split: "py_split 10 s = pre @ (P @ K) # tl B"
      and P: "\<forall>c\<in>set P. py_isspace c"
    proof (cases "butlast M")
      case Nil
      then have "py_split 10 s = butlast A @ (last A @ K) # tl B" using S Z by simp
      then show ?thesis using lastA that by blast
    next
      case (Cons x xs)
      then have "py_split 10 s = (butlast A @ (last A @ x) # xs) @ ([] @ K) # tl B"
        using S Z by simp
      then show ?thesis using that [of "butlast A @ (last A @ x) # xs" "[]"] by simp
    qed
    have "filter nonblank (py_split 10 s) = filter nonblank pre @ [P @ K]"
      using blankB nbK by (simp add: split filter_empty_conv)
    then have "final_line s = Some (P @ K)" by (simp add: final_line_def)
    then have "final_line_has t s = sublist t (P @ (last M @ hd B))"
      by (simp add: final_line_has_def K_def)
    also have "\<dots> = sublist t (last M @ hd B)"
      using P t by (rule sublist_drop_left)
    also have "\<dots> = sublist t (last M)"
      using hdB t by (rule sublist_drop_right)
    finally show ?thesis by (simp add: lang_match_def M_def m_def)
  qed
qed


lemma py_replace_Nil: "old \<noteq> [] \<Longrightarrow> py_replace old new [] = []"
  by (simp add: py_replace.simps)

lemma py_replace_prefix: "old \<noteq> [] \<Longrightarrow> py_replace old new (old @ s) = new @ py_replace old new s"
  by (subst py_replace.simps) simp

lemma py_replace_Cons:
  "old \<noteq> [] \<Longrightarrow> \<not> prefix old (c # s) \<Longrightarrow> py_replace old new (c # s) = c # py_replace old new s"
  by (subst py_replace.simps) simp


lemma py_replace_skip:
  "tok \<noteq> [] \<Longrightarrow> hd tok \<notin> set w \<Longrightarrow> py_replace tok new (w @ v) = w @ py_replace tok new v"
proof (induction w)
  case Nil then show ?case by simp
next
  case (Cons c w)
  then have "\<not> prefix tok (c # w @ v)" by (cases tok) auto
  with Cons show ?case by (simp add: py_replace_Cons)
qed

lemma py_replace_boundary:
  assumes tok: "tok \<noteq> []" "hd tok \<notin> set (tl tok)" and mid: "mid \<noteq> []" "hd mid = hd tok"
  shows "py_replace tok new (u @ mid @ v) = py_replace tok new u @ py_replace tok new (mid @ v)"
proof (induction u rule: length_induct)
  case (1 u)
  show ?case
  proof (cases u)
    case Nil
    then show ?thesis using tok by (simp add: py_replace_Nil)
  next
    case (Cons c u')
    show ?thesis
    proof (cases "prefix tok (u @ mid @ v)")
      case True
      have "length tok \<le> length u"
      proof (rule ccontr)
        assume "\<not> length tok \<le> length u"
        then have short: "length u < length tok" by simp
        from True obtain r where r: "u @ mid @ v = tok @ r" by (auto simp: prefix_def)
        then obtain t' where tk: "tok = u @ t'" and t': "mid @ v = t' @ r"
          using short by (auto simp: append_eq_append_conv2)
        have "t' \<noteq> []" using short tk by auto
        with t' mid have "hd t' = hd tok"
          by (cases t'; cases mid) auto
        moreover have "hd t' \<in> set (tl tok)" using tk \<open>t' \<noteq> []\<close> Cons by (cases t') auto
        ultimately show False using tok by simp
      qed
      with True have "prefix tok u" by (auto simp: prefix_append)
      then obtain u'' where u: "u = tok @ u''" by (auto simp: prefix_def)
      then have "length u'' < length u" using tok by simp
      with 1 have "py_replace tok new (u'' @ mid @ v) =
                   py_replace tok new u'' @ py_replace tok new (mid @ v)" by blast
      then show ?thesis using u tok by (simp add: py_replace_prefix)
    next
      case False
      then have "\<not> prefix tok u" by (auto simp: prefix_def)
      moreover have "py_replace tok new (u' @ mid @ v) =
                     py_replace tok new u' @ py_replace tok new (mid @ v)"
        using 1 Cons by simp
      ultimately show ?thesis using False Cons tok by (simp add: py_replace_Cons)
    qed
  qed
qed


lemma py_replace_keeps:
  assumes tok: "tok \<noteq> []" "hd tok \<notin> set (tl tok)"
    and keep: "keep \<noteq> []" "hd keep = hd tok" "hd tok \<notin> set (tl keep)" "\<not> prefix tok keep"
      "length tok = length keep"
  shows "py_replace tok new (u @ keep @ v) = py_replace tok new u @ keep @ py_replace tok new v"
proof -
  obtain k' where k: "keep = hd tok # k'" using keep by (cases keep) auto
  have "\<not> prefix tok (keep @ v)"
    using keep by (auto simp: prefix_append)
  then have "py_replace tok new (keep @ v) = hd tok # py_replace tok new (k' @ v)"
    using k tok py_replace_Cons [of tok "hd tok" "k' @ v" new] by simp
  also have "\<dots> = keep @ py_replace tok new v"
    using keep(3) tok k py_replace_skip [of tok k' new v] by simp
  finally show ?thesis using py_replace_boundary [OF tok keep(1,2), of new u v] by simp
qed

lemma py_replace_segments:
  assumes "old \<noteq> []"
  shows "\<exists>segs. segs \<noteq> [] \<and> s = py_join old segs \<and> py_replace old new s = py_join new segs \<and>
               (\<forall>seg\<in>set segs. \<not> sublist old seg)"
proof (induction s rule: length_induct)
  case (1 s)
  show ?case
  proof (cases s)
    case Nil
    then show ?thesis using assms
      by (intro exI [of _ "[[]]"]) (auto simp: py_replace_Nil)
  next
    case (Cons c s')
    show ?thesis
    proof (cases "prefix old s")
      case True
      then obtain r where r: "s = old @ r" by (auto simp: prefix_def)
      then have "length r < length s" using assms by simp
      with 1 obtain segs where segs: "segs \<noteq> []" "r = py_join old segs"
        "py_replace old new r = py_join new segs" "\<forall>seg\<in>set segs. \<not> sublist old seg" by blast
      then show ?thesis using r assms
        by (intro exI [of _ "[] # segs"]) (cases segs; auto simp: py_replace_prefix)
    next
      case False
      from 1 Cons obtain segs where segs: "segs \<noteq> []" "s' = py_join old segs"
        "py_replace old new s' = py_join new segs" "\<forall>seg\<in>set segs. \<not> sublist old seg" by auto
      then obtain seg0 rest where sr: "segs = seg0 # rest" by (cases segs) auto
      have pre: "prefix seg0 s'" using segs(2) sr by (cases rest) auto
      have "\<not> prefix old (c # seg0)"
      proof
        assume "prefix old (c # seg0)"
        moreover have "prefix (c # seg0) s" using pre Cons by simp
        ultimately show False using False by (metis prefix_order.order_trans)
      qed
      then have "\<not> sublist old (c # seg0)" using segs(4) sr by (simp add: sublist_Cons_right)
      then show ?thesis using segs sr Cons False assms
        by (intro exI [of _ "(c # seg0) # rest"]) (cases rest; auto simp: py_replace_Cons)
    qed
  qed
qed


section \<open>Evaluation on concrete strings\<close>

lemma py_replace_step:
  "old \<noteq> [] \<Longrightarrow> py_replace old new (c # s) =
     (if prefix old (c # s) then new @ py_replace old new (drop (length old) (c # s))
      else c # py_replace old new s)"
  by (subst py_replace.simps) simp

lemma LANG_ML_eq: "LANG_ML = [91, 108, 97, 110, 103, 58, 109, 108, 93]"
  by (simp add: LANG_ML_def lit_def)

lemma LANG_EN_eq: "LANG_EN = [91, 108, 97, 110, 103, 58, 101, 110, 93]"
  by (simp add: LANG_EN_def lit_def)

lemma LANG_ML_solid: "LANG_ML \<noteq> []" "\<forall>c\<in>set LANG_ML. \<not> py_isspace c"
  by (simp_all add: LANG_ML_eq py_isspace_def)

lemma LANG_EN_solid: "LANG_EN \<noteq> []" "\<forall>c\<in>set LANG_EN. \<not> py_isspace c"
  by (simp_all add: LANG_EN_eq py_isspace_def)

lemma lang_match_ML: "sublist LANG_ML (lang_match reply) = final_line_has LANG_ML reply"
  using LANG_ML_solid by (rule lang_match_final_line)

lemma lang_match_EN: "sublist LANG_EN (lang_match reply) = final_line_has LANG_EN reply"
  using LANG_EN_solid by (rule lang_match_final_line)

lemma lang_match_eval:
  "lang_match s = rev (takeWhile (\<lambda>c. c \<noteq> 10) (rev (py_strip s)))"
  by (simp add: lang_match_def last_py_split)

lemmas eval_simps = lang_match_eval py_strip_def py_isspace_def lit_def
  LANG_ML_eq LANG_EN_eq py_replace_step py_replace_Nil sublist_Cons_right

section \<open>The post-processor\<close>

text \<open>
  C6. A reply whose final non-empty line holds neither \<^verbatim>\<open>[lang:ml]\<close> nor
  \<^verbatim>\<open>[lang:en]\<close> (also a reply with no such line at all) comes back with language
  \<^verbatim>\<open>en\<close> and its text as it was: nothing trimmed, nothing removed.
\<close>

theorem no_marker_unchanged:
  assumes "\<not> final_line_has LANG_ML reply" and "\<not> final_line_has LANG_EN reply"
  shows "parse_response reply = (reply, lit ''en'')"
  using assms by (simp add: parse_response_def lang_match_ML lang_match_EN)

theorem no_marker_unchanged_witness:
  "\<not> final_line_has LANG_ML (lit '' [lang:ml] is a tag\<newline>Water the paddy.\<newline> \<newline>'') \<and>
   \<not> final_line_has LANG_EN (lit '' [lang:ml] is a tag\<newline>Water the paddy.\<newline> \<newline>'') \<and>
   parse_response (lit '' [lang:ml] is a tag\<newline>Water the paddy.\<newline> \<newline>'') =
     (lit '' [lang:ml] is a tag\<newline>Water the paddy.\<newline> \<newline>'', lit ''en'')"
proof -
  let ?r = "lit '' [lang:ml] is a tag\<newline>Water the paddy.\<newline> \<newline>''"
  have ml: "\<not> final_line_has LANG_ML ?r"
    unfolding lang_match_ML [symmetric] by (simp add: eval_simps)
  have en: "\<not> final_line_has LANG_EN ?r"
    unfolding lang_match_EN [symmetric] by (simp add: eval_simps)
  show ?thesis using ml en no_marker_unchanged [OF ml en] by simp
qed




lemma py_join_empty_sep: "py_join [] segs = concat segs"
  by (induction "[] :: 'a list" segs rule: py_join.induct) simp_all

lemma py_replace_removes:
  assumes "tok \<noteq> []"
  shows "\<exists>segs. s = py_join tok segs \<and> py_replace tok [] s = concat segs \<and>
               list_all (\<lambda>seg. \<not> sublist tok seg) segs"
  using py_replace_segments [OF assms, of s "[]"]
  by (auto simp: py_join_empty_sep list_all_iff)

lemma sublist_py_strip:
  assumes "tok \<noteq> []" "\<forall>c\<in>set tok. \<not> py_isspace c"
  shows "sublist tok (py_strip s) = sublist tok s"
proof -
  obtain a b where s: "s = a @ py_strip s @ b" and a: "\<forall>c\<in>set a. py_isspace c"
    and b: "\<forall>c\<in>set b. py_isspace c"
    using py_strip_decomp [of s] by blast
  have "sublist tok s = sublist tok (a @ py_strip s @ b)" using s by simp
  also have "\<dots> = sublist tok (py_strip s @ b)" using a assms by (rule sublist_drop_left)
  also have "\<dots> = sublist tok (py_strip s)" using b assms by (rule sublist_drop_right)
  finally show ?thesis by simp
qed

lemma lang_match_suffix: "suffix (lang_match s) (py_strip s)"
proof -
  have "py_strip s = rev (dropWhile (\<lambda>c. c \<noteq> 10) (rev (py_strip s))) @ lang_match s"
    unfolding lang_match_eval by (metis rev_append takeWhile_dropWhile_id rev_rev_ident)
  then show ?thesis by (metis suffixI)
qed

lemma sublist_lang_match:
  assumes "tok \<noteq> []" "\<forall>c\<in>set tok. \<not> py_isspace c" "sublist tok (lang_match s)"
  shows "sublist tok s"
proof -
  have "sublist (lang_match s) (py_strip s)" using lang_match_suffix by (rule suffix_imp_sublist)
  with assms(3) have "sublist tok (py_strip s)" by (rule sublist_order.order_trans)
  then show ?thesis using assms by (simp add: sublist_py_strip)
qed


text \<open>
  C4, as the source has it. When the final non-empty line of the reply holds
  \<^verbatim>\<open>[lang:ml]\<close>, the language is \<^verbatim>\<open>ml\<close> and the text is the reply with every
  occurrence of that token removed, then trimmed. When that line holds \<^verbatim>\<open>[lang:en]\<close>
  and does not hold \<^verbatim>\<open>[lang:ml]\<close>, the language is \<^verbatim>\<open>en\<close> and the text is the reply
  with every \<^verbatim>\<open>[lang:en]\<close> removed, then trimmed. Removing a token takes away that
  literal token and nothing else: the reply is a list of pieces joined by the token, no
  piece holds the token, and what remains is the pieces put together.
\<close>

theorem marker_removed_and_trimmed:
  "(final_line_has LANG_ML reply \<longrightarrow>
      parse_response reply = (py_strip (py_replace LANG_ML [] reply), lit ''ml'')) \<and>
   (final_line_has LANG_EN reply \<and> \<not> final_line_has LANG_ML reply \<longrightarrow>
      parse_response reply = (py_strip (py_replace LANG_EN [] reply), lit ''en'')) \<and>
   (\<exists>segs. reply = py_join LANG_ML segs \<and> py_replace LANG_ML [] reply = concat segs \<and>
           list_all (\<lambda>seg. \<not> sublist LANG_ML seg) segs) \<and>
   (\<exists>segs. reply = py_join LANG_EN segs \<and> py_replace LANG_EN [] reply = concat segs \<and>
           list_all (\<lambda>seg. \<not> sublist LANG_EN seg) segs)"
  using py_replace_removes [OF LANG_ML_solid(1), of reply]
    py_replace_removes [OF LANG_EN_solid(1), of reply]
  by (simp add: parse_response_def lang_match_ML lang_match_EN)

theorem marker_removed_and_trimmed_witness:
  "final_line_has LANG_ML (lit ''Nanni. [lang:ml] \<newline>'' @ [160]) \<and>
   parse_response (lit ''Nanni. [lang:ml] \<newline>'' @ [160]) = (lit ''Nanni.'', lit ''ml'') \<and>
   final_line_has LANG_EN (lit ''  Sow in June.\<newline>[lang:en]\<newline>'') \<and>
   \<not> final_line_has LANG_ML (lit ''  Sow in June.\<newline>[lang:en]\<newline>'') \<and>
   parse_response (lit ''  Sow in June.\<newline>[lang:en]\<newline>'') = (lit ''Sow in June.'', lit ''en'')"
proof -
  let ?a = "lit ''Nanni. [lang:ml] \<newline>'' @ [160]"
  let ?b = "lit ''  Sow in June.\<newline>[lang:en]\<newline>''"
  have a: "final_line_has LANG_ML ?a"
    unfolding lang_match_ML [symmetric] by (simp add: eval_simps)
  have b: "final_line_has LANG_EN ?b" "\<not> final_line_has LANG_ML ?b"
    unfolding lang_match_ML [symmetric] lang_match_EN [symmetric] by (simp_all add: eval_simps)
  have "parse_response ?a = (py_strip (py_replace LANG_ML [] ?a), lit ''ml'')"
    using a marker_removed_and_trimmed [of ?a] by blast
  moreover have "py_strip (py_replace LANG_ML [] ?a) = lit ''Nanni.''"
    by (simp add: eval_simps)
  moreover have "parse_response ?b = (py_strip (py_replace LANG_EN [] ?b), lit ''en'')"
    using b marker_removed_and_trimmed [of ?b] by blast
  moreover have "py_strip (py_replace LANG_EN [] ?b) = lit ''Sow in June.''"
    by (simp add: eval_simps)
  ultimately show ?thesis using a b by simp
qed

text \<open>
  C4 as it was stated fails where the line holds both tokens: the line below holds
  \<^verbatim>\<open>[lang:en]\<close>, yet the language is \<^verbatim>\<open>ml\<close> and \<^verbatim>\<open>[lang:en]\<close> stays in the text.
\<close>

theorem english_marker_beside_malayalam_counterexample:
  "final_line_has LANG_EN (lit ''Vellam [lang:en] [lang:ml]'') \<and>
   parse_response (lit ''Vellam [lang:en] [lang:ml]'') = (lit ''Vellam [lang:en]'', lit ''ml'')"
proof -
  let ?r = "lit ''Vellam [lang:en] [lang:ml]''"
  have "final_line_has LANG_EN ?r"
    unfolding lang_match_EN [symmetric] by (simp add: eval_simps)
  moreover have "parse_response ?r = (lit ''Vellam [lang:en]'', lit ''ml'')"
    unfolding parse_response_def by (simp add: eval_simps)
  ultimately show ?thesis by simp
qed


lemma py_replace_keeps_EN:
  "py_replace LANG_ML new (u @ LANG_EN @ v) =
     py_replace LANG_ML new u @ LANG_EN @ py_replace LANG_ML new v"
proof (rule py_replace_keeps)
  show "\<not> prefix LANG_ML LANG_EN" by (simp add: LANG_ML_eq LANG_EN_eq)
qed (simp_all add: LANG_ML_eq LANG_EN_eq)

text \<open>
  C9. When the final non-empty line of the reply holds both \<^verbatim>\<open>[lang:ml]\<close> and
  \<^verbatim>\<open>[lang:en]\<close>, the language is \<^verbatim>\<open>ml\<close> and only \<^verbatim>\<open>[lang:ml]\<close> is removed:
  each occurrence of \<^verbatim>\<open>[lang:en]\<close> stays where it is, between what the removal makes
  of the text before it and of the text after it, and the returned text still holds
  \<^verbatim>\<open>[lang:en]\<close>.
\<close>

theorem both_markers_malayalam_first:
  assumes "final_line_has LANG_ML reply" and "final_line_has LANG_EN reply"
  shows "parse_response reply = (py_strip (py_replace LANG_ML [] reply), lit ''ml'') \<and>
         (\<forall>u v. reply = u @ LANG_EN @ v \<longrightarrow>
            py_replace LANG_ML [] reply =
              py_replace LANG_ML [] u @ LANG_EN @ py_replace LANG_ML [] v) \<and>
         sublist LANG_EN (fst (parse_response reply))"
proof -
  have p: "parse_response reply = (py_strip (py_replace LANG_ML [] reply), lit ''ml'')"
    using assms(1) by (simp add: parse_response_def lang_match_ML)
  have "sublist LANG_EN (lang_match reply)" using assms(2) by (simp add: lang_match_EN)
  then have "sublist LANG_EN reply"
    by (rule sublist_lang_match [OF LANG_EN_solid])
  then obtain u v where "reply = u @ LANG_EN @ v" unfolding sublist_def by blast
  then have "py_replace LANG_ML [] reply =
               py_replace LANG_ML [] u @ LANG_EN @ py_replace LANG_ML [] v"
    by (simp only: py_replace_keeps_EN)
  then have "sublist LANG_EN (py_replace LANG_ML [] reply)"
    by (simp only: sublist_appendI)
  then have "sublist LANG_EN (py_strip (py_replace LANG_ML [] reply))"
    by (simp only: sublist_py_strip [OF LANG_EN_solid])
  moreover have "\<forall>u v. reply = u @ LANG_EN @ v \<longrightarrow>
            py_replace LANG_ML [] reply =
              py_replace LANG_ML [] u @ LANG_EN @ py_replace LANG_ML [] v"
    using py_replace_keeps_EN by blast
  ultimately show ?thesis using p by simp
qed

theorem both_markers_malayalam_first_witness:
  "final_line_has LANG_ML (lit ''[lang:en] Vellam\<newline>ok [lang:en][lang:ml]'') \<and>
   final_line_has LANG_EN (lit ''[lang:en] Vellam\<newline>ok [lang:en][lang:ml]'') \<and>
   parse_response (lit ''[lang:en] Vellam\<newline>ok [lang:en][lang:ml]'') =
     (lit ''[lang:en] Vellam\<newline>ok [lang:en]'', lit ''ml'')"
proof -
  let ?r = "lit ''[lang:en] Vellam\<newline>ok [lang:en][lang:ml]''"
  have ml: "final_line_has LANG_ML ?r"
    unfolding lang_match_ML [symmetric] by (simp add: eval_simps)
  have en: "final_line_has LANG_EN ?r"
    unfolding lang_match_EN [symmetric] by (simp add: eval_simps)
  have "py_strip (py_replace LANG_ML [] ?r) = lit ''[lang:en] Vellam\<newline>ok [lang:en]''"
    by (simp add: eval_simps)
  moreover have "parse_response ?r = (py_strip (py_replace LANG_ML [] ?r), lit ''ml'')"
    using both_markers_malayalam_first [OF ml en] by (rule conjunct1)
  ultimately show ?thesis using ml en by simp
qed






lemma sublist_last_occurrence:
  "t \<noteq> [] \<Longrightarrow> sublist t l \<Longrightarrow> \<exists>pre post. l = pre @ t @ post \<and> \<not> sublist t post"
proof (induction l)
  case Nil then show ?case by simp
next
  case (Cons c l)
  show ?case
  proof (cases "sublist t l")
    case True
    with Cons obtain pre post where "l = pre @ t @ post" "\<not> sublist t post" by blast
    then have "c # l = (c # pre) @ t @ post" by simp
    then show ?thesis using \<open>\<not> sublist t post\<close> by blast
  next
    case False
    with Cons.prems have "prefix t (c # l)" by (simp add: sublist_Cons_right)
    then obtain post where p: "c # l = t @ post" by (auto simp: prefix_def)
    then obtain t' where "t = c # t'" "l = t' @ post" using Cons.prems(1) by (cases t) auto
    then have "\<not> sublist t post" using False by (metis sublist_append_leftI sublist_order.order_trans)
    then show ?thesis using p by (metis append_Nil)
  qed
qed






section \<open>The endpoint\<close>

lemma keys_distinct: "lit ''response'' \<noteq> lit ''lang''"
  by (simp add: lit_def)

lemma parse_response_lang: "snd (parse_response r) = lit ''en'' \<or> snd (parse_response r) = lit ''ml''"
  by (simp add: parse_response_def)

text \<open>
  C10. When the body holds a \<^verbatim>\<open>query\<close> whose value is falsy (the empty string,
  \<^verbatim>\<open>null\<close>, zero, \<^verbatim>\<open>false\<close>, an empty array or object), the handler answers 400 with
  an \<^verbatim>\<open>error\<close> field and does nothing else, exactly as it does for a body without the
  key.
\<close>

theorem falsy_query_rejected:
  assumes "data (lit ''query'') = Some v" and "\<not> truthy v"
  shows "chat generate_content py_str st data =
           (\<lparr>status = 400, payload = [lit ''error'' \<mapsto> JStr (lit ''No query provided'')]\<rparr>, st) \<and>
         chat generate_content py_str st data =
           chat generate_content py_str st (data(lit ''query'' := None))"
  using assms by (simp add: chat_def no_query_def)

theorem falsy_query_rejected_witness:
  "[lit ''query'' \<mapsto> JStr []] (lit ''query'') = Some (JStr []) \<and> \<not> truthy (JStr []) \<and>
   chat (\<lambda>prompt. Inr (lit ''Hi [lang:en]'')) (\<lambda>v. []) \<lparr>pdf_context = lit ''Rice.'', trace = []\<rparr>
        [lit ''query'' \<mapsto> JStr []] =
     (\<lparr>status = 400, payload = [lit ''error'' \<mapsto> JStr (lit ''No query provided'')]\<rparr>,
      \<lparr>pdf_context = lit ''Rice.'', trace = []\<rparr>)"
proof -
  have q: "[lit ''query'' \<mapsto> JStr []] (lit ''query'') = Some (JStr [])" by simp
  have f: "\<not> truthy (JStr [])" by simp
  show ?thesis using q f falsy_query_rejected [where data = "[lit ''query'' \<mapsto> JStr []]" and v = "JStr []", OF q f, THEN conjunct1] by (intro conjI)
qed

text \<open>
  C7, as the source has it, for a body that is a JSON object. Without a \<^verbatim>\<open>query\<close>
  field, or with a falsy one, the answer is 400 with the field \<^verbatim>\<open>error\<close>. With a truthy
  \<^verbatim>\<open>query\<close> the handler runs the pipeline and answers 200 with exactly the fields
  \<^verbatim>\<open>response\<close> and \<^verbatim>\<open>lang\<close>: the text and the language that the post-processor
  makes of the adapter's reply, the language being \<^verbatim>\<open>en\<close> or \<^verbatim>\<open>ml\<close>.
\<close>

theorem chat_status:
  "(data (lit ''query'') = None \<longrightarrow>
      fst (chat generate_content py_str st data) =
        \<lparr>status = 400, payload = [lit ''error'' \<mapsto> JStr (lit ''No query provided'')]\<rparr>) \<and>
   (\<forall>v. data (lit ''query'') = Some v \<and> \<not> truthy v \<longrightarrow>
      fst (chat generate_content py_str st data) =
        \<lparr>status = 400, payload = [lit ''error'' \<mapsto> JStr (lit ''No query provided'')]\<rparr>) \<and>
   (\<forall>v. data (lit ''query'') = Some v \<and> truthy v \<longrightarrow>
      (\<exists>text lang.
         (text, lang) =
           parse_response
             (fst (app_get_gemini_response generate_content (query_text py_str v) (pdf_context st))) \<and>
         (lang = lit ''en'' \<or> lang = lit ''ml'') \<and>
         status (fst (chat generate_content py_str st data)) = 200 \<and>
         dom (payload (fst (chat generate_content py_str st data))) = {lit ''response'', lit ''lang''} \<and>
         payload (fst (chat generate_content py_str st data)) (lit ''response'') = Some (JStr text) \<and>
         payload (fst (chat generate_content py_str st data)) (lit ''lang'') = Some (JStr lang)))"
proof (intro conjI allI impI)
  fix v assume v: "data (lit ''query'') = Some v \<and> truthy v"
  obtain reply evs where g: "app_get_gemini_response generate_content (query_text py_str v) (pdf_context st) = (reply, evs)"
    by (cases "app_get_gemini_response generate_content (query_text py_str v) (pdf_context st)")
  obtain resp lang where p: "parse_response reply = (resp, lang)"
    by (cases "parse_response reply")
  have "lang = lit ''en'' \<or> lang = lit ''ml''" using parse_response_lang [of reply] p by simp
  moreover have "chat generate_content py_str st data =
      (\<lparr>status = 200, payload = [lit ''response'' \<mapsto> JStr resp, lit ''lang'' \<mapsto> JStr lang]\<rparr>,
       st\<lparr>trace := trace st @ evs\<rparr>)"
    using v g p by (simp add: chat_def)
  ultimately show "\<exists>text lang.
         (text, lang) =
           parse_response
             (fst (app_get_gemini_response generate_content (query_text py_str v) (pdf_context st))) \<and>
         (lang = lit ''en'' \<or> lang = lit ''ml'') \<and>
         status (fst (chat generate_content py_str st data)) = 200 \<and>
         dom (payload (fst (chat generate_content py_str st data))) = {lit ''response'', lit ''lang''} \<and>
         payload (fst (chat generate_content py_str st data)) (lit ''response'') = Some (JStr text) \<and>
         payload (fst (chat generate_content py_str st data)) (lit ''lang'') = Some (JStr lang)"
    using g p keys_distinct by (intro exI [of _ resp] exI [of _ lang]) auto
qed (simp_all add: chat_def no_query_def)


theorem chat_status_witness:
  "[lit ''query'' \<mapsto> JStr (lit ''hello'')] (lit ''query'') = Some (JStr (lit ''hello'')) \<and>
   truthy (JStr (lit ''hello'')) \<and>
   status (fst (chat (\<lambda>prompt. Inr (lit ''Hi there [lang:en]'')) (\<lambda>v. [])
                  \<lparr>pdf_context = lit ''Rice.'', trace = []\<rparr>
                  [lit ''query'' \<mapsto> JStr (lit ''hello'')])) = 200 \<and>
   payload (fst (chat (\<lambda>prompt. Inr (lit ''Hi there [lang:en]'')) (\<lambda>v. [])
                  \<lparr>pdf_context = lit ''Rice.'', trace = []\<rparr>
                  [lit ''query'' \<mapsto> JStr (lit ''hello'')])) (lit ''response'') =
     Some (JStr (lit ''Hi there'')) \<and>
   payload (fst (chat (\<lambda>prompt. Inr (lit ''Hi there [lang:en]'')) (\<lambda>v. [])
                  \<lparr>pdf_context = lit ''Rice.'', trace = []\<rparr>
                  [lit ''query'' \<mapsto> JStr (lit ''hello'')])) (lit ''lang'') =
     Some (JStr (lit ''en''))"
proof -
  let ?g = "\<lambda>prompt::pystr. Inr (lit ''Hi there [lang:en]'') :: py_exception + pystr"
  let ?p = "\<lambda>v::json. [] :: pystr"
  let ?st = "\<lparr>pdf_context = lit ''Rice.'', trace = []\<rparr>"
  let ?d = "[lit ''query'' \<mapsto> JStr (lit ''hello'')]"
  have q: "?d (lit ''query'') = Some (JStr (lit ''hello''))" by simp
  have t: "truthy (JStr (lit ''hello''))" by (simp add: lit_def)
  have "fst (app_get_gemini_response ?g (query_text ?p (JStr (lit ''hello''))) (pdf_context ?st)) =
          lit ''Hi there [lang:en]''"
    by (simp add: app_get_gemini_response_def)
  moreover have "parse_response (lit ''Hi there [lang:en]'') = (lit ''Hi there'', lit ''en'')"
    unfolding parse_response_def by (simp add: eval_simps)
  ultimately have r: "parse_response
      (fst (app_get_gemini_response ?g (query_text ?p (JStr (lit ''hello''))) (pdf_context ?st))) =
      (lit ''Hi there'', lit ''en'')" by (simp only:)
  have "\<forall>v. ?d (lit ''query'') = Some v \<and> truthy v \<longrightarrow>
      (\<exists>text lang.
         (text, lang) =
           parse_response (fst (app_get_gemini_response ?g (query_text ?p v) (pdf_context ?st))) \<and>
         (lang = lit ''en'' \<or> lang = lit ''ml'') \<and>
         status (fst (chat ?g ?p ?st ?d)) = 200 \<and>
         dom (payload (fst (chat ?g ?p ?st ?d))) = {lit ''response'', lit ''lang''} \<and>
         payload (fst (chat ?g ?p ?st ?d)) (lit ''response'') = Some (JStr text) \<and>
         payload (fst (chat ?g ?p ?st ?d)) (lit ''lang'') = Some (JStr lang))"
    using chat_status [of ?d ?g ?p ?st] by (elim conjE)
  then obtain resp lang where
    "(resp, lang) =
       parse_response (fst (app_get_gemini_response ?g (query_text ?p (JStr (lit ''hello''))) (pdf_context ?st)))"
    "status (fst (chat ?g ?p ?st ?d)) = 200"
    "payload (fst (chat ?g ?p ?st ?d)) (lit ''response'') = Some (JStr resp)"
    "payload (fst (chat ?g ?p ?st ?d)) (lit ''lang'') = Some (JStr lang)"
    using q t by blast
  then show ?thesis using q t unfolding r by (intro conjI) simp_all
qed

text \<open>
  C7 as it was stated fails for a query that is present and empty: the answer is 400.
\<close>

theorem empty_query_counterexample:
  "[lit ''query'' \<mapsto> JStr []] (lit ''query'') = Some (JStr []) \<and>
   status (fst (chat (\<lambda>prompt. Inr (lit ''Hi [lang:en]'')) (\<lambda>v. [])
                  \<lparr>pdf_context = lit ''Rice.'', trace = []\<rparr>
                  [lit ''query'' \<mapsto> JStr []])) = 400"
  by (simp add: chat_def no_query_def)

section \<open>The knowledge context\<close>

lemma loop_body_context:
  "knowledge_context (snd (loop_body generate_content py_lower st t)) = knowledge_context st"
  by (simp add: loop_body_def respond_def Let_def split: prod.splits sum.splits option.splits)

lemma conversation_context:
  "knowledge_context (snd (conversation generate_content py_lower st turns)) = knowledge_context st"
proof (induction turns arbitrary: st)
  case Nil
  then show ?case by simp
next
  case (Cons t turns)
  show ?case
  proof (cases "loop_body generate_content py_lower st t")
    case (Pair c st')
    then have "knowledge_context st' = knowledge_context st"
      using loop_body_context [of generate_content py_lower st t] by simp
    then show ?thesis using Pair Cons [of st'] by (cases c) simp_all
  qed
qed

lemma conversation_result:
  assumes "conversation generate_content py_lower st turns = (c, st')"
  shows "knowledge_context st' = knowledge_context st"
  using conversation_context [of generate_content py_lower st turns] assms by simp

lemma main_context:
  "knowledge_context (snd (main pdfplumber_open generate_content py_lower pdf_files turns)) =
     fst (extract_text_from_pdfs pdfplumber_open pdf_files)"
proof (cases "extract_text_from_pdfs pdfplumber_open pdf_files")
  case (Pair ctx evs)
  show ?thesis
  proof (cases "py_strip ctx = []")
    case True
    then show ?thesis using Pair by (simp add: main_def)
  next
    case False
    then show ?thesis using Pair
      by (simp add: main_def split: prod.splits control.splits)
         (auto dest!: conversation_result)
  qed
qed

text \<open>
  C8. No execution of the chat handler changes \<open>pdf_context\<close>, in particular none
  after \<open>load_initial_context\<close>; no execution of the body of the terminal loop, and no
  run of the whole loop, changes \<open>knowledge_context\<close>, which stays the text that
  \<open>extract_text_from_pdfs\<close> returned at the start of \<open>main\<close>.
\<close>

theorem context_never_mutated:
  "pdf_context (snd (chat generate_content py_str st data)) = pdf_context st \<and>
   pdf_context (snd (chat generate_content py_str (load_initial_context path_exists pdfplumber_open st)
                       data)) =
     pdf_context (load_initial_context path_exists pdfplumber_open st) \<and>
   knowledge_context (snd (loop_body generate_content py_lower t_st t)) = knowledge_context t_st \<and>
   knowledge_context (snd (conversation generate_content py_lower t_st turns)) =
     knowledge_context t_st \<and>
   knowledge_context (snd (main pdfplumber_open generate_content py_lower pdf_files turns)) =
     fst (extract_text_from_pdfs pdfplumber_open pdf_files)"
proof -
  have "knowledge_context (snd (main pdfplumber_open generate_content py_lower pdf_files turns)) =
          fst (extract_text_from_pdfs pdfplumber_open pdf_files)"
    by (rule main_context)
  moreover note loop_body_context conversation_context
  moreover
  have "pdf_context (snd (chat generate_content py_str s data)) = pdf_context s" for s
    by (simp add: chat_def split: option.splits prod.splits)
  ultimately show ?thesis by simp
qed


section \<open>The adapter of the language model\<close>

lemma chatbot_system_prompt_no_marker: "\<not> sublist (lit ''[lang:'') chatbot_system_prompt"
  unfolding chatbot_system_prompt_def by (simp add: lit_def sublist_Cons_right)

lemma app_apology_parsed: "parse_response app_apology = (chatbot_apology, lit ''en'')"
  unfolding parse_response_def app_apology_def chatbot_apology_def by (simp add: eval_simps)

lemma chatbot_apology_untagged:
  "\<not> sublist LANG_EN chatbot_apology" "\<not> sublist LANG_ML chatbot_apology"
  unfolding chatbot_apology_def by (simp_all add: eval_simps)

lemma app_apology_tagged: "suffix LANG_EN app_apology"
  unfolding app_apology_def by (simp add: lit_def LANG_EN_eq suffix_def)


text \<open>
  C2, as the source has it, each variant on its own. When the generation call of the web
  variant raises, for whatever query and context, the adapter of app.py does not let the
  error through: it returns its fixed apology, which ends with the default marker
  \<^verbatim>\<open>[lang:en]\<close> and of which the post-processor makes the bare sentence in language
  \<^verbatim>\<open>en\<close>. When the generation call of the terminal variant raises, the adapter of
  chatbot.py returns its fixed apology, which is that bare sentence with no marker (the
  terminal variant has no markers anywhere). Neither half supposes anything of the other
  variant's call.
\<close>

theorem apology_on_failure:
  "(generate_content (full_prompt user_query ctx) = Inl e \<longrightarrow>
      fst (app_get_gemini_response generate_content user_query ctx) =
        lit ''Sorry, I am having trouble connecting to my brain right now. Please try again later. [lang:en]'' \<and>
      suffix LANG_EN (fst (app_get_gemini_response generate_content user_query ctx)) \<and>
      parse_response (fst (app_get_gemini_response generate_content user_query ctx)) =
        (lit ''Sorry, I am having trouble connecting to my brain right now. Please try again later.'',
         lit ''en'')) \<and>
   (generate_content' (chatbot_system_prompt @ lit ''\<newline>\<newline>'' @ full_prompt user_query' ctx') = Inl e' \<longrightarrow>
      fst (chatbot_get_gemini_response generate_content' user_query' ctx') =
        lit ''Sorry, I am having trouble connecting to my brain right now. Please try again later.'' \<and>
      \<not> sublist LANG_EN (fst (chatbot_get_gemini_response generate_content' user_query' ctx')) \<and>
      \<not> sublist LANG_ML (fst (chatbot_get_gemini_response generate_content' user_query' ctx')))"
proof (intro conjI impI)
  assume "generate_content (full_prompt user_query ctx) = Inl e"
  then have a: "fst (app_get_gemini_response generate_content user_query ctx) = app_apology"
    by (simp add: app_get_gemini_response_def)
  show "fst (app_get_gemini_response generate_content user_query ctx) =
        lit ''Sorry, I am having trouble connecting to my brain right now. Please try again later. [lang:en]''"
    unfolding a by (simp only: app_apology_def)
  show "suffix LANG_EN (fst (app_get_gemini_response generate_content user_query ctx))"
    unfolding a by (rule app_apology_tagged)
  show "parse_response (fst (app_get_gemini_response generate_content user_query ctx)) =
        (lit ''Sorry, I am having trouble connecting to my brain right now. Please try again later.'',
         lit ''en'')"
    unfolding a using app_apology_parsed by (simp only: chatbot_apology_def)
next
  assume "generate_content' (chatbot_system_prompt @ lit ''\<newline>\<newline>'' @ full_prompt user_query' ctx') = Inl e'"
  then have c: "fst (chatbot_get_gemini_response generate_content' user_query' ctx') = chatbot_apology"
    by (simp add: chatbot_get_gemini_response_def)
  show "fst (chatbot_get_gemini_response generate_content' user_query' ctx') =
        lit ''Sorry, I am having trouble connecting to my brain right now. Please try again later.''"
    unfolding c by (simp only: chatbot_apology_def)
  show "\<not> sublist LANG_EN (fst (chatbot_get_gemini_response generate_content' user_query' ctx'))"
    unfolding c by (rule chatbot_apology_untagged(1))
  show "\<not> sublist LANG_ML (fst (chatbot_get_gemini_response generate_content' user_query' ctx'))"
    unfolding c by (rule chatbot_apology_untagged(2))
qed

text \<open>
  An instance of each half. The model of the first fails on the prompt of the web variant
  and on nothing else; the model of the second fails on the prompts that start with the
  system instruction of the terminal variant and on nothing else.
\<close>

theorem apology_on_failure_witness:
  "(\<lambda>prompt. if prompt = full_prompt (lit ''hello'') (lit ''Rice.'')
              then Inl (PyException (lit ''429 quota exceeded'')) else Inr (lit ''Fine. [lang:en]''))
     (full_prompt (lit ''hello'') (lit ''Rice.'')) = Inl (PyException (lit ''429 quota exceeded'')) \<and>
   fst (app_get_gemini_response
          (\<lambda>prompt. if prompt = full_prompt (lit ''hello'') (lit ''Rice.'')
                     then Inl (PyException (lit ''429 quota exceeded'')) else Inr (lit ''Fine. [lang:en]''))
          (lit ''hello'') (lit ''Rice.'')) = app_apology \<and>
   parse_response
     (fst (app_get_gemini_response
             (\<lambda>prompt. if prompt = full_prompt (lit ''hello'') (lit ''Rice.'')
                        then Inl (PyException (lit ''429 quota exceeded'')) else Inr (lit ''Fine. [lang:en]''))
             (lit ''hello'') (lit ''Rice.''))) = (chatbot_apology, lit ''en'') \<and>
   (\<lambda>prompt. if prefix chatbot_system_prompt prompt
              then Inl (PyException (lit ''429 quota exceeded'')) else Inr (lit ''Fine.''))
     (chatbot_system_prompt @ lit ''\<newline>\<newline>'' @ full_prompt (lit ''hello'') (lit ''Rice.'')) =
     Inl (PyException (lit ''429 quota exceeded'')) \<and>
   fst (chatbot_get_gemini_response
          (\<lambda>prompt. if prefix chatbot_system_prompt prompt
                     then Inl (PyException (lit ''429 quota exceeded'')) else Inr (lit ''Fine.''))
          (lit ''hello'') (lit ''Rice.'')) = chatbot_apology \<and>
   \<not> sublist LANG_EN
       (fst (chatbot_get_gemini_response
               (\<lambda>prompt. if prefix chatbot_system_prompt prompt
                          then Inl (PyException (lit ''429 quota exceeded'')) else Inr (lit ''Fine.''))
               (lit ''hello'') (lit ''Rice.'')))"
proof -
  let ?w = "\<lambda>prompt. if prompt = full_prompt (lit ''hello'') (lit ''Rice.'')
              then Inl (PyException (lit ''429 quota exceeded'')) else Inr (lit ''Fine. [lang:en]'')"
  let ?t = "\<lambda>prompt. if prefix chatbot_system_prompt prompt
              then Inl (PyException (lit ''429 quota exceeded'')) else Inr (lit ''Fine.'')"
  have 1: "?w (full_prompt (lit ''hello'') (lit ''Rice.'')) = Inl (PyException (lit ''429 quota exceeded''))"
    by (simp only: if_True refl)
  have 2: "?t (chatbot_system_prompt @ lit ''\<newline>\<newline>'' @ full_prompt (lit ''hello'') (lit ''Rice.'')) =
             Inl (PyException (lit ''429 quota exceeded''))"
    by (simp only: prefixI [OF refl] if_True)
  note web = apology_on_failure [where generate_content = ?w and user_query = "lit ''hello''"
      and ctx = "lit ''Rice.''" and e = "PyException (lit ''429 quota exceeded'')",
      THEN conjunct1, rule_format, OF 1]
  note cli = apology_on_failure [where generate_content' = ?t and user_query' = "lit ''hello''"
      and ctx' = "lit ''Rice.''" and e' = "PyException (lit ''429 quota exceeded'')",
      THEN conjunct2, rule_format, OF 2]
  note 3 = web [THEN conjunct1, folded app_apology_def]
  note 4 = web [THEN conjunct2, THEN conjunct2, folded chatbot_apology_def]
  note 5 = cli [THEN conjunct1, folded chatbot_apology_def]
  note 6 = cli [THEN conjunct2, THEN conjunct1]
  show ?thesis using 1 3 4 2 5 6 by (intro conjI)
qed

text \<open>
  C2 as it was stated fails in the terminal variant: its apology holds no
  \<^verbatim>\<open>[lang:en]\<close>.
\<close>

theorem terminal_apology_untagged_counterexample:
  "fst (chatbot_get_gemini_response (\<lambda>prompt. Inl (PyException (lit ''429 quota exceeded'')))
          (lit ''hello'') (lit ''Rice.'')) =
     lit ''Sorry, I am having trouble connecting to my brain right now. Please try again later.'' \<and>
   \<not> sublist LANG_EN
       (fst (chatbot_get_gemini_response (\<lambda>prompt. Inl (PyException (lit ''429 quota exceeded'')))
               (lit ''hello'') (lit ''Rice.'')))"
proof -
  have "fst (chatbot_get_gemini_response (\<lambda>prompt. Inl (PyException (lit ''429 quota exceeded'')))
          (lit ''hello'') (lit ''Rice.'')) = chatbot_apology"
    by (simp add: chatbot_get_gemini_response_def)
  then show ?thesis using chatbot_apology_untagged(1) by (simp add: chatbot_apology_def)
qed


text \<open>
  C1, as the source has it by design. For every context and every query, each variant
  sends one prompt, and the prompt ends with the delimited context block, which holds the
  whole knowledge string as it is, followed by the query. In the terminal variant the
  block comes after the fixed system instruction of chatbot.py and a blank line; that
  instruction says nothing of a language marker.
\<close>

theorem prompt_sent_to_model:
  "(\<exists>p. prompts_sent (snd (app_get_gemini_response generate_content user_query ctx)) = [p] \<and>
        suffix (lit ''CONTEXT FROM DOCUMENTS:\<newline>---\<newline>'' @ ctx @
                lit ''\<newline>---\<newline>\<newline>FARMER'S QUERY:\<newline>'' @ user_query) p) \<and>
   prompts_sent (snd (chatbot_get_gemini_response generate_content user_query ctx)) =
     [chatbot_system_prompt @ lit ''\<newline>\<newline>'' @
      lit ''CONTEXT FROM DOCUMENTS:\<newline>---\<newline>'' @ ctx @
      lit ''\<newline>---\<newline>\<newline>FARMER'S QUERY:\<newline>'' @ user_query] \<and>
   \<not> sublist (lit ''[lang:'') chatbot_system_prompt"
proof -
  have "prompts_sent (snd (app_get_gemini_response generate_content user_query ctx)) =
          [full_prompt user_query ctx]"
    by (simp add: app_get_gemini_response_def Let_def split: sum.splits)
  moreover have "prompts_sent (snd (chatbot_get_gemini_response generate_content user_query ctx)) =
          [chatbot_system_prompt @ lit ''\<newline>\<newline>'' @ full_prompt user_query ctx]"
    by (simp add: chatbot_get_gemini_response_def Let_def split: sum.splits)
  ultimately show ?thesis
    using chatbot_system_prompt_no_marker by (simp add: full_prompt_def)
qed

text \<open>
  C1 as it was stated fails in both variants. The prompt of the web variant is the
  context block and the query alone: \<open>system_prompt\<close> is bound in
  \<^verbatim>\<open>get_gemini_response\<close> of app.py and never passed on. The prompt of the terminal
  variant has a system instruction, with no instruction to append a marker token.
\<close>

theorem system_instruction_counterexample:
  "prompts_sent (snd (app_get_gemini_response (\<lambda>prompt. Inr (lit ''ok'')) (lit ''hello'') (lit ''Rice.''))) =
     [lit ''CONTEXT FROM DOCUMENTS:\<newline>---\<newline>Rice.\<newline>---\<newline>\<newline>FARMER'S QUERY:\<newline>hello''] \<and>
   \<not> sublist app_system_prompt
       (lit ''CONTEXT FROM DOCUMENTS:\<newline>---\<newline>Rice.\<newline>---\<newline>\<newline>FARMER'S QUERY:\<newline>hello'') \<and>
   prompts_sent (snd (chatbot_get_gemini_response (\<lambda>prompt. Inr (lit ''ok'')) (lit ''hello'') (lit ''Rice.''))) =
     [chatbot_system_prompt @
      lit ''\<newline>\<newline>CONTEXT FROM DOCUMENTS:\<newline>---\<newline>Rice.\<newline>---\<newline>\<newline>FARMER'S QUERY:\<newline>hello''] \<and>
   \<not> sublist (lit ''[lang:'')
       (chatbot_system_prompt @
        lit ''\<newline>\<newline>CONTEXT FROM DOCUMENTS:\<newline>---\<newline>Rice.\<newline>---\<newline>\<newline>FARMER'S QUERY:\<newline>hello'')"
proof -
  have 1: "prompts_sent (snd (app_get_gemini_response (\<lambda>prompt. Inr (lit ''ok'')) (lit ''hello'') (lit ''Rice.''))) =
     [lit ''CONTEXT FROM DOCUMENTS:\<newline>---\<newline>Rice.\<newline>---\<newline>\<newline>FARMER'S QUERY:\<newline>hello'']"
    by (simp add: app_get_gemini_response_def full_prompt_def lit_def)
  have 2: "\<not> sublist app_system_prompt
       (lit ''CONTEXT FROM DOCUMENTS:\<newline>---\<newline>Rice.\<newline>---\<newline>\<newline>FARMER'S QUERY:\<newline>hello'')"
    unfolding app_system_prompt_def by (simp add: lit_def sublist_Cons_right)
  have 3: "prompts_sent (snd (chatbot_get_gemini_response (\<lambda>prompt. Inr (lit ''ok'')) (lit ''hello'') (lit ''Rice.''))) =
     [chatbot_system_prompt @
      lit ''\<newline>\<newline>CONTEXT FROM DOCUMENTS:\<newline>---\<newline>Rice.\<newline>---\<newline>\<newline>FARMER'S QUERY:\<newline>hello'']"
    by (simp add: chatbot_get_gemini_response_def full_prompt_def lit_def)
  have 4: "\<not> sublist (lit ''[lang:'')
       (chatbot_system_prompt @
        lit ''\<newline>\<newline>CONTEXT FROM DOCUMENTS:\<newline>---\<newline>Rice.\<newline>---\<newline>\<newline>FARMER'S QUERY:\<newline>hello'')"
    unfolding chatbot_system_prompt_def by (simp add: lit_def sublist_Cons_right)
  show ?thesis using 1 2 3 4 by (intro conjI)
qed


section \<open>The document loader of the terminal variant\<close>

text \<open>
  What holds of \<open>extract_text_from_pdfs\<close>: every file gets its one printed line, a file
  that cannot be opened leaves the text as it was and the loop goes on with the next file,
  and pages that all have text are concatenated, each followed by a newline.
\<close>

lemma chatbot_files_length:
  "length (snd (chatbot_files pdfplumber_open paths full_text)) = length paths"
proof (induction paths arbitrary: full_text)
  case Nil
  then show ?case by simp
next
  case (Cons path paths)
  obtain t ev where f: "chatbot_file pdfplumber_open path full_text = (t, ev)"
    by (cases "chatbot_file pdfplumber_open path full_text")
  obtain r evs where r: "chatbot_files pdfplumber_open paths t = (r, evs)"
    by (cases "chatbot_files pdfplumber_open paths t")
  then have "length evs = length paths" using Cons [of t] by simp
  then show ?case using f r by simp
qed

lemma chatbot_files_bad_file:
  assumes "pdfplumber_open path = Inl e"
  shows "chatbot_files pdfplumber_open (path # paths) full_text =
           (fst (chatbot_files pdfplumber_open paths full_text),
            Printed (lit ''  - Could not read '' @ basename path @ lit '': '' @ message e) #
            snd (chatbot_files pdfplumber_open paths full_text))"
  using assms by (simp add: chatbot_file_def split: prod.splits)

lemma chatbot_pages_all_text:
  "chatbot_pages (map (\<lambda>t. Inr (Some t)) texts) full_text =
     (full_text @ concat (map (\<lambda>t. t @ [10]) texts), None)"
  by (induction texts arbitrary: full_text) simp_all

text \<open>
  C3. The claim says that pages with no extractable text are skipped. The loop of
  chatbot.py has no test for that, unlike \<^verbatim>\<open>if text:\<close> in app.py. Evaluated on a
  document of three pages whose second page has no text: when \<^verbatim>\<open>extract_text\<close>
  returns \<^verbatim>\<open>None\<close> for it the addition raises, the file is reported as unreadable and
  its third page is lost; when it returns the empty string an empty line is added for the
  page. The loader of the web variant skips both kinds of page.
\<close>

theorem page_without_text_not_skipped:
  "extract_text_from_pdfs
     (\<lambda>path. Inr [Inr (Some (lit ''Sow in June.'')), Inr None, Inr (Some (lit ''Harvest in October.''))])
     [lit ''/docs/guide.pdf''] =
     (lit ''Sow in June.\<newline>'',
      [Printed (lit ''Extracting text from PDF documents...''),
       Printed (lit ''  - Could not read guide.pdf: unsupported operand type(s) for +: 'NoneType' and 'str'' @ [39]),
       Printed (lit ''Extraction complete.\<newline>'')]) \<and>
   fst (extract_text_from_pdfs
     (\<lambda>path. Inr [Inr (Some (lit ''Sow in June.'')), Inr (Some []), Inr (Some (lit ''Harvest in October.''))])
     [lit ''/docs/guide.pdf'']) = lit ''Sow in June.\<newline>\<newline>Harvest in October.\<newline>'' \<and>
   fst (extract_text_from_pdf
     (\<lambda>path. Inr [Inr (Some (lit ''Sow in June.'')), Inr None, Inr (Some []), Inr (Some (lit ''Harvest in October.''))])
     (lit ''/docs/guide.pdf'')) = Some (lit ''Sow in June.\<newline>Harvest in October.\<newline>'')"
  by (simp add: extract_text_from_pdfs_def extract_text_from_pdf_def chatbot_file_def
      none_plus_str_def basename_def lit_def)


end
